theory Spec2Isabelle
  imports Complex_Main "HOL-Library.Word"
begin

section \<open>Roblox shirt generator: the image pipeline of app.py\<close>

text \<open>
  The program is one Python file. It calls the Pillow imaging library for every pixel
  operation, so the embedding has two layers: a small model of the Pillow primitives the
  file uses (\<open>Image.new\<close>, \<open>paste\<close>, \<open>alpha_composite\<close>, \<open>resize\<close>,
  \<open>ImageStat.Stat.mean\<close>), and on top of it the functions of app.py, each under its own name.
  All images of the program are in mode RGBA with 8-bit channels.
\<close>

subsection \<open>Configuration constants\<close>

definition ROBLOX_WIDTH :: nat where "ROBLOX_WIDTH = 585"
definition ROBLOX_HEIGHT :: nat where "ROBLOX_HEIGHT = 559"
definition LOGO_X :: nat where "LOGO_X = 231"
definition LOGO_Y :: nat where "LOGO_Y = 74"
definition LOGO_SIZE :: nat where "LOGO_SIZE = 128"
definition PATTERN_SIZE :: nat where "PATTERN_SIZE = 150"

subsection \<open>Pixels, images and exceptions\<close>

type_synonym u8 = "8 word"

record rgba =
  red :: u8
  green :: u8
  blue :: u8
  alpha :: u8

text \<open>
  An image is its size (width, height) and its pixel data, read as Pillow's
  \<open>getpixel\<close> does: by column \<open>x\<close> and row \<open>y\<close>. Only the coordinates inside the size
  are part of the image; \<open>getpixel\<close> raises outside them, which is \<open>None\<close> here.
\<close>

record pil_image =
  isize :: "nat \<times> nat"
  pixels :: "nat \<Rightarrow> nat \<Rightarrow> rgba"

datatype exn = Exn string

definition getpixel :: "pil_image \<Rightarrow> nat \<Rightarrow> nat \<Rightarrow> rgba option" where
  "getpixel im x y =
     (if x < fst (isize im) \<and> y < snd (isize im) then Some (pixels im x y) else None)"

text \<open>Two images are pixel-identical when no \<open>getpixel\<close> tells them apart.\<close>

definition pixel_identical :: "pil_image \<Rightarrow> pil_image \<Rightarrow> bool" where
  "pixel_identical a b \<longleftrightarrow> isize a = isize b \<and> (\<forall>x y. getpixel a x y = getpixel b x y)"

definition Image_new :: "nat \<times> nat \<Rightarrow> rgba \<Rightarrow> pil_image" where
  "Image_new sz c = \<lparr>isize = sz, pixels = (\<lambda>x y. c)\<rparr>"

definition transparent_black :: rgba where
  "transparent_black = \<lparr>red = 0, green = 0, blue = 0, alpha = 0\<rparr>"

subsection \<open>Pillow: paste\<close>

text \<open>
  \<open>base.paste(im, (dx, dy))\<close> copies \<open>im\<close> into \<open>base\<close> with its upper left corner at
  \<open>(dx, dy)\<close>. The part of \<open>im\<close> that would fall right of or below \<open>base\<close> is cut off:
  \<open>paste_region\<close> is the extent that is really written. The program only pastes at
  offsets that are not negative, so offsets are naturals. Python mutates \<open>base\<close>; the
  model returns the updated image.
\<close>

definition paste_region :: "nat \<times> nat \<Rightarrow> nat \<times> nat \<Rightarrow> nat \<times> nat \<Rightarrow> nat \<times> nat" where
  "paste_region bsz sz box =
     (let xsize = (if fst box + fst sz > fst bsz then fst bsz - fst box else fst sz);
          ysize = (if snd box + snd sz > snd bsz then snd bsz - snd box else snd sz)
      in (xsize, ysize))"

definition in_region :: "nat \<times> nat \<Rightarrow> nat \<times> nat \<Rightarrow> nat \<Rightarrow> nat \<Rightarrow> bool" where
  "in_region box ext x y \<longleftrightarrow>
     fst box \<le> x \<and> x < fst box + fst ext \<and> snd box \<le> y \<and> y < snd box + snd ext"

definition paste :: "pil_image \<Rightarrow> pil_image \<Rightarrow> nat \<times> nat \<Rightarrow> pil_image" where
  "paste base im box =
     base\<lparr>pixels := (\<lambda>x y.
        if in_region box (paste_region (isize base) (isize im) box) x y
        then pixels im (x - fst box) (y - snd box)
        else pixels base x y)\<rparr>"

text \<open>
  With \<open>mask=\<close> an RGBA image, every byte of the pixel (the alpha byte too) is blended
  with the mask's alpha by Pillow's \<open>BLEND\<close> macro, whose division by 255 is the usual
  shift trick. The intermediate is at most \<open>255 * 255\<close>, so nothing overflows. The
  one masked paste of the program writes onto a base that is opaque everywhere.
\<close>

definition DIV255 :: "nat \<Rightarrow> nat" where
  "DIV255 a = (let tmp = a + 128 in ((tmp div 256) + tmp) div 256)"

definition BLEND :: "u8 \<Rightarrow> u8 \<Rightarrow> u8 \<Rightarrow> u8" where
  "BLEND m in1 in2 = of_nat (DIV255 (unat in1 * (255 - unat m) + unat in2 * unat m))"

definition blend_px :: "u8 \<Rightarrow> rgba \<Rightarrow> rgba \<Rightarrow> rgba" where
  "blend_px m out inp =
     \<lparr>red = BLEND m (red out) (red inp), green = BLEND m (green out) (green inp),
      blue = BLEND m (blue out) (blue inp), alpha = BLEND m (alpha out) (alpha inp)\<rparr>"

definition paste_mask :: "pil_image \<Rightarrow> pil_image \<Rightarrow> pil_image \<Rightarrow> nat \<times> nat \<Rightarrow> pil_image" where
  "paste_mask base im msk box =
     base\<lparr>pixels := (\<lambda>x y.
        if in_region box (paste_region (isize base) (isize im) box) x y
        then blend_px (alpha (pixels msk (x - fst box) (y - snd box)))
               (pixels base x y) (pixels im (x - fst box) (y - snd box))
        else pixels base x y)\<rparr>"

subsection \<open>Pillow: resize\<close>

text \<open>
  \<open>resize\<close> returns a new image of the size asked for, or raises. What the Lanczos filter
  computes for each pixel is floating-point work inside the library; it is a parameter
  of the model, the resampler, which gives the pixel data of the result or the exception.
\<close>

type_synonym resampler = "pil_image \<Rightarrow> nat \<times> nat \<Rightarrow> exn + (nat \<Rightarrow> nat \<Rightarrow> rgba)"

definition resize :: "resampler \<Rightarrow> pil_image \<Rightarrow> nat \<times> nat \<Rightarrow> exn + pil_image" where
  "resize rs im sz =
     (case rs im sz of Inl e \<Rightarrow> Inl e | Inr f \<Rightarrow> Inr \<lparr>isize = sz, pixels = f\<rparr>)"

subsection \<open>get\_average\_color\<close>

text \<open>
  \<open>convert("RGB")\<close> drops the alpha channel, \<open>ImageStat.Stat.mean\<close> divides the sum of
  each band over all pixels by the number of pixels, and \<open>int\<close> truncates. The sum and
  the count are integers that a double holds exactly and the mean is at most 255, so the
  truncated float quotient is the integer quotient. An image with no pixel makes the
  division raise \<open>ZeroDivisionError\<close>.
\<close>

definition pixel_list :: "pil_image \<Rightarrow> rgba list" where
  "pixel_list im =
     concat (map (\<lambda>y. map (\<lambda>x. pixels im x y) [0..<fst (isize im)]) [0..<snd (isize im)])"

definition band_sum :: "(rgba \<Rightarrow> u8) \<Rightarrow> pil_image \<Rightarrow> nat" where
  "band_sum ch im = sum_list (map (\<lambda>p. unat (ch p)) (pixel_list im))"

definition get_average_color :: "pil_image \<Rightarrow> exn + (nat \<times> nat \<times> nat)" where
  "get_average_color im =
     (let count = fst (isize im) * snd (isize im) in
      if count = 0 then Inl (Exn ''float division by zero'')
      else Inr (band_sum red im div count, band_sum green im div count,
                band_sum blue im div count))"

text \<open>
  What the result is measured against: the arithmetic mean of a channel as a real
  number, an image of one colour, and an image of which half the pixels are black and
  the other half white.
\<close>

definition channel_mean :: "(rgba \<Rightarrow> u8) \<Rightarrow> pil_image \<Rightarrow> real" where
  "channel_mean ch im =
     sum_list (map (\<lambda>p. real (unat (ch p))) (pixel_list im)) / real (length (pixel_list im))"

definition has_rgb :: "u8 \<Rightarrow> u8 \<Rightarrow> u8 \<Rightarrow> rgba \<Rightarrow> bool" where
  "has_rgb R G B p \<longleftrightarrow> red p = R \<and> green p = G \<and> blue p = B"

definition uniform_rgb :: "pil_image \<Rightarrow> u8 \<Rightarrow> u8 \<Rightarrow> u8 \<Rightarrow> bool" where
  "uniform_rgb im R G B \<longleftrightarrow> list_all (has_rgb R G B) (pixel_list im)"

definition half_black_half_white :: "pil_image \<Rightarrow> bool" where
  "half_black_half_white im \<longleftrightarrow>
     list_all (\<lambda>p. has_rgb 0 0 0 p \<or> has_rgb 255 255 255 p) (pixel_list im) \<and>
     2 * length (filter (has_rgb 255 255 255) (pixel_list im)) = length (pixel_list im)"

subsection \<open>create\_logo\_mode\_image and create\_pattern\_mode\_image\<close>

definition create_logo_mode_image :: "resampler \<Rightarrow> pil_image \<Rightarrow> exn + pil_image" where
  "create_logo_mode_image rs ai_image =
     (case resize rs ai_image (LOGO_SIZE, LOGO_SIZE) of
        Inl e \<Rightarrow> Inl e
      | Inr logo \<Rightarrow>
          (case get_average_color logo of
             Inl e \<Rightarrow> Inl e
           | Inr (r, g, b) \<Rightarrow>
               (let base = Image_new (ROBLOX_WIDTH, ROBLOX_HEIGHT)
                             \<lparr>red = of_nat r, green = of_nat g, blue = of_nat b, alpha = 255\<rparr>
                in Inr (paste_mask base logo logo (LOGO_X, LOGO_Y)))))"

text \<open>Python's \<open>range(start, stop, step)\<close> for a positive step.\<close>

definition py_range :: "nat \<Rightarrow> nat \<Rightarrow> nat \<Rightarrow> nat list" where
  "py_range start stop step =
     map (\<lambda>k. start + k * step) [0..<(stop - start + step - 1) div step]"

definition create_pattern_mode_image :: "resampler \<Rightarrow> pil_image \<Rightarrow> exn + pil_image" where
  "create_pattern_mode_image rs ai_image =
     (case resize rs ai_image (PATTERN_SIZE, PATTERN_SIZE) of
        Inl e \<Rightarrow> Inl e
      | Inr tile \<Rightarrow>
          Inr (fold (\<lambda>x base. fold (\<lambda>y base. paste base tile (x, y))
                                 (py_range 0 ROBLOX_HEIGHT PATTERN_SIZE) base)
                 (py_range 0 ROBLOX_WIDTH PATTERN_SIZE)
                 (Image_new (ROBLOX_WIDTH, ROBLOX_HEIGHT) transparent_black)))"

subsection \<open>Pillow: alpha\_composite\<close>

text \<open>
  \<open>Image.alpha_composite(dst, src)\<close> raises \<open>ValueError\<close> when the two sizes differ and
  otherwise builds a new image, pixel by pixel. A source pixel of alpha 0 copies the
  destination pixel; any other is mixed in integer arithmetic with 7 extra bits of
  precision. The C code computes in 32-bit unsigned integers; the largest intermediate
  is \<open>255 * 255 * 255 * 128\<close>, below \<open>2 ^ 32\<close>, so naturals compute the same.
\<close>

definition SHIFTFORDIV255 :: "nat \<Rightarrow> nat" where
  "SHIFTFORDIV255 a = ((a div 256) + a) div 256"

definition composite_px :: "rgba \<Rightarrow> rgba \<Rightarrow> rgba" where
  "composite_px dst src =
     (if alpha src = 0 then dst
      else
        (let blend = unat (alpha dst) * (255 - unat (alpha src));
             outa255 = unat (alpha src) * 255 + blend;
             coef1 = unat (alpha src) * 255 * 255 * 128 div outa255;
             coef2 = 255 * 128 - coef1;
             chan = (\<lambda>s d. of_nat (SHIFTFORDIV255 (unat s * coef1 + unat d * coef2 + 128 * 128)
                                 div 128))
         in \<lparr>red = chan (red src) (red dst), green = chan (green src) (green dst),
             blue = chan (blue src) (blue dst),
             alpha = of_nat (SHIFTFORDIV255 (outa255 + 128))\<rparr>))"

definition alpha_composite :: "pil_image \<Rightarrow> pil_image \<Rightarrow> exn + pil_image" where
  "alpha_composite dst src =
     (if isize dst \<noteq> isize src then Inl (Exn ''images do not match'')
      else Inr \<lparr>isize = isize dst,
                pixels = (\<lambda>x y. composite_px (pixels dst x y) (pixels src x y))\<rparr>)"

subsection \<open>The outside world and the state of a run\<close>

text \<open>
  The program talks to a file (the cached template), to the network, to the secrets
  store and to the Streamlit page. The answers of the outside world during one run are
  a record \<open>world\<close>:
  \<^item> \<open>template_response\<close>: \<open>requests.get(TEMPLATE_URL, timeout=15)\<close> followed by
    \<open>raise_for_status\<close>, the content or the exception;
  \<^item> \<open>write_error\<close>: the exception of writing the downloaded bytes to the file, if any;
  \<^item> \<open>save_error\<close>: the exception of saving the placeholder, if any;
  \<^item> \<open>api_key\<close>: what reading the secret and building the client gives;
  \<^item> \<open>generate_response\<close>: the URL in the first result of \<open>client.images.generate\<close>
    for a prompt, or the exception of the call or of reading the result;
  \<^item> \<open>image_response\<close>: the content behind that URL, or the exception;
  \<^item> \<open>decode\<close>: \<open>Image.open(...).convert("RGBA")\<close> on bytes;
  \<^item> \<open>resample\<close>: the resampler of \<open>resize\<close>.

  What the program does to the world is the state \<open>sys\<close>: the content of the template
  file and the log of the outside calls and page messages, in order. A file write either
  happens as a whole or raises and leaves the file as it was. A PNG written by Pillow
  reads back as the image that was saved; downloaded bytes go through the decoder.
\<close>

datatype file_content = Raw_bytes "u8 list" | Png_of pil_image

datatype gen_mode = Logo_Mode | Pattern_Mode

datatype event =
    Template_get string
  | Images_generate string
  | Image_get string
  | St_success string
  | St_error string
  | St_info string
  | St_warning string
  | St_image pil_image string
  | St_download_button file_content string

record world =
  template_response :: "exn + u8 list"
  write_error :: "exn option"
  save_error :: "exn option"
  api_key :: "exn + string option"
  generate_response :: "string \<Rightarrow> exn + string"
  image_response :: "string \<Rightarrow> exn + u8 list"
  decode :: "u8 list \<Rightarrow> exn + pil_image"
  resample :: resampler

record sys =
  template_file :: "file_content option"
  log :: "event list"

record ui_inputs =
  prompt :: string
  mode :: gen_mode
  generate_btn :: bool

definition TEMPLATE_URL :: string where
  "TEMPLATE_URL =
     ''https://github.com/Antosser/Roblox-Shirt-Template/blob/master/template.png?raw=true''"

fun str :: "exn \<Rightarrow> string" where
  "str (Exn m) = m"

definition emit :: "event list \<Rightarrow> sys \<Rightarrow> sys" where
  "emit es s = s\<lparr>log := log s @ es\<rparr>"

subsection \<open>download\_template\<close>

definition placeholder :: pil_image where
  "placeholder = Image_new (ROBLOX_WIDTH, ROBLOX_HEIGHT) transparent_black"

text \<open>
  The \<open>except\<close> branch: report, then save the transparent placeholder. The save is
  outside any \<open>try\<close>, so its exception leaves the function.
\<close>

definition template_fallback :: "world \<Rightarrow> exn \<Rightarrow> sys \<Rightarrow> (exn + unit) \<times> sys" where
  "template_fallback w e s =
     (let s' = emit [St_error (''Failed to download template: '' @ str e),
                     St_info ''Creating a transparent placeholder template...''] s
      in case save_error w of
           None \<Rightarrow> (Inr (), s'\<lparr>template_file := Some (Png_of placeholder)\<rparr>)
         | Some e' \<Rightarrow> (Inl e', s'))"

definition download_template :: "world \<Rightarrow> sys \<Rightarrow> (exn + unit) \<times> sys" where
  "download_template w s =
     (if template_file s \<noteq> None then (Inr (), s)
      else
        (let s' = emit [Template_get TEMPLATE_URL] s
         in case template_response w of
              Inl e \<Rightarrow> template_fallback w e s'
            | Inr content \<Rightarrow>
                (case write_error w of
                   Some e \<Rightarrow> template_fallback w e s'
                 | None \<Rightarrow>
                     (Inr (), emit [St_success ''Template downloaded!'']
                                (s'\<lparr>template_file := Some (Raw_bytes content)\<rparr>)))))"

text \<open>Two calls in sequence: the second runs only when the first returned.\<close>

definition download_template_twice :: "world \<Rightarrow> world \<Rightarrow> sys \<Rightarrow> (exn + unit) \<times> sys" where
  "download_template_twice w1 w2 s =
     (case download_template w1 s of
        (Inl e, s') \<Rightarrow> (Inl e, s')
      | (Inr u, s') \<Rightarrow> download_template w2 s')"

subsection \<open>get\_openai\_client and generate\_image\<close>

text \<open>
  \<open>st.stop()\<close> ends the script run; it is not an \<open>Exception\<close>, so the \<open>except\<close> clause
  around it does not catch it. \<open>None\<close> is the stopped run, \<open>Some key\<close> the client.
\<close>

definition get_openai_client :: "world \<Rightarrow> sys \<Rightarrow> string option \<times> sys" where
  "get_openai_client w s =
     (case api_key w of
        Inl e \<Rightarrow> (None, emit [St_error (''Error initializing OpenAI: '' @ str e)] s)
      | Inr None \<Rightarrow>
          (None, emit [St_error ''OpenAI API Key not found in .streamlit/secrets.toml''] s)
      | Inr (Some k) \<Rightarrow>
          (if k = [] then
             (None, emit [St_error ''OpenAI API Key not found in .streamlit/secrets.toml''] s)
           else (Some k, s)))"

definition generation_failed :: "exn \<Rightarrow> sys \<Rightarrow> pil_image option \<times> sys" where
  "generation_failed e s = (None, emit [St_error (''Image generation failed: '' @ str e)] s)"

definition generate_image :: "world \<Rightarrow> string \<Rightarrow> string \<Rightarrow> sys \<Rightarrow> pil_image option \<times> sys" where
  "generate_image w client p s =
     (let s1 = emit [Images_generate p] s
      in case generate_response w p of
           Inl e \<Rightarrow> generation_failed e s1
         | Inr img_url \<Rightarrow>
             (let s2 = emit [Image_get img_url] s1
              in case image_response w img_url of
                   Inl e \<Rightarrow> generation_failed e s2
                 | Inr content \<Rightarrow>
                     (case decode w content of
                        Inl e \<Rightarrow> generation_failed e s2
                      | Inr im \<Rightarrow> (Some im, s2))))"

subsection \<open>apply\_template\_overlay\<close>

definition open_template :: "world \<Rightarrow> sys \<Rightarrow> exn + pil_image" where
  "open_template w s =
     (case template_file s of
        None \<Rightarrow> Inl (Exn ''No such file or directory: shirt_overlay.png'')
      | Some (Png_of im) \<Rightarrow> Inr im
      | Some (Raw_bytes bs) \<Rightarrow> decode w bs)"

text \<open>
  The body of the \<open>try\<close>: open the template, resize it when its size differs from the
  canvas size, composite it over the base image. \<open>load_overlay\<close> is the overlay as it
  reaches the composite.
\<close>

definition load_overlay :: "world \<Rightarrow> sys \<Rightarrow> exn + pil_image" where
  "load_overlay w s =
     (case open_template w s of
        Inl e \<Rightarrow> Inl e
      | Inr overlay \<Rightarrow>
          (if isize overlay \<noteq> (ROBLOX_WIDTH, ROBLOX_HEIGHT)
           then resize (resample w) overlay (ROBLOX_WIDTH, ROBLOX_HEIGHT)
           else Inr overlay))"

definition overlay_try :: "world \<Rightarrow> sys \<Rightarrow> pil_image \<Rightarrow> exn + pil_image" where
  "overlay_try w s base_image =
     (case load_overlay w s of
        Inl e \<Rightarrow> Inl e
      | Inr overlay \<Rightarrow> alpha_composite base_image overlay)"

definition apply_template_overlay :: "world \<Rightarrow> pil_image \<Rightarrow> sys \<Rightarrow> pil_image \<times> sys" where
  "apply_template_overlay w base_image s =
     (case overlay_try w s base_image of
        Inr final \<Rightarrow> (final, s)
      | Inl e \<Rightarrow> (base_image, emit [St_warning (''Could not apply overlay: '' @ str e)] s))"

subsection \<open>main\<close>

text \<open>
  One run of the script. \<open>No_action\<close>: the button was not pressed. \<open>Prompt_missing\<close>:
  the early \<open>return\<close> after the warning. \<open>Stopped\<close>: \<open>st.stop()\<close> in the client set-up.
  \<open>No_image\<close>: \<open>generate_image\<close> returned \<open>None\<close>, nothing more runs. \<open>Shirt\<close>: the
  final image was shown and offered for download. \<open>Uncaught\<close>: an exception that no
  \<open>try\<close> of the file catches. The emoji of the page texts are left out of the strings.
  \<open>compose\<close> is the routing on the mode, \<open>generation_logic\<close> the body of
  \<open>if generate_btn\<close>, and \<open>main\<close> the template set-up followed by it.
\<close>

datatype outcome =
    No_action
  | Prompt_missing
  | Stopped
  | No_image
  | Shirt pil_image
  | Uncaught exn

fun mode_label :: "gen_mode \<Rightarrow> string" where
  "mode_label Logo_Mode = ''Logo Mode''"
| "mode_label Pattern_Mode = ''Pattern Mode''"

definition compose :: "world \<Rightarrow> gen_mode \<Rightarrow> pil_image \<Rightarrow> exn + pil_image" where
  "compose w m ai_image =
     (if m = Logo_Mode then create_logo_mode_image (resample w) ai_image
      else create_pattern_mode_image (resample w) ai_image)"

definition generation_logic :: "world \<Rightarrow> ui_inputs \<Rightarrow> sys \<Rightarrow> outcome \<times> sys" where
  "generation_logic w inp s =
     (if prompt inp = [] then
        (Prompt_missing, emit [St_warning ''Please enter a design description.''] s)
      else
        (case get_openai_client w s of
           (None, s1) \<Rightarrow> (Stopped, s1)
         | (Some client, s1) \<Rightarrow>
             (case generate_image w client (prompt inp) s1 of
                (None, s2) \<Rightarrow> (No_image, s2)
              | (Some ai_image, s2) \<Rightarrow>
                  (case compose w (mode inp) ai_image of
                     Inl e \<Rightarrow> (Uncaught e, s2)
                   | Inr base_image \<Rightarrow>
                       (case apply_template_overlay w base_image s2 of
                          (final_image, s3) \<Rightarrow>
                            (Shirt final_image,
                             emit [St_success ''Shirt generated!'',
                                   St_image final_image
                                     (''Roblox Shirt - '' @ mode_label (mode inp)),
                                   St_download_button (Png_of final_image)
                                     ''roblox_shirt.png''] s3))))))"

definition main :: "world \<Rightarrow> ui_inputs \<Rightarrow> sys \<Rightarrow> outcome \<times> sys" where
  "main w inp s =
     (case download_template w s of
        (Inl e, s') \<Rightarrow> (Uncaught e, s')
      | (Inr u, s') \<Rightarrow>
          (if generate_btn inp then generation_logic w inp s' else (No_action, s')))"

subsection \<open>Reading the log\<close>

text \<open>
  The events a run added to the log, the calls that belong to the image generator, the
  fetches of the template, and the events that hand an image to the user.
\<close>

definition new_events :: "sys \<Rightarrow> sys \<Rightarrow> event list" where
  "new_events s s' = drop (length (log s)) (log s')"

fun generator_call :: "event \<Rightarrow> bool" where
  "generator_call (Images_generate p) = True"
| "generator_call (Image_get u) = True"
| "generator_call _ = False"

fun template_fetch :: "event \<Rightarrow> bool" where
  "template_fetch (Template_get u) = True"
| "template_fetch _ = False"

fun output_event :: "event \<Rightarrow> bool" where
  "output_event (St_image im c) = True"
| "output_event (St_download_button d n) = True"
| "output_event _ = False"

text \<open>
  The three ways the generator step fails in \<open>generate_image\<close>: the API call raises, the
  download of the image raises, or the downloaded bytes are not an image.
\<close>

definition generator_fails :: "world \<Rightarrow> string \<Rightarrow> exn \<Rightarrow> bool" where
  "generator_fails w p e \<longleftrightarrow>
     (case generate_response w p of
        Inl e1 \<Rightarrow> e = e1
      | Inr img_url \<Rightarrow>
          (case image_response w img_url of
             Inl e2 \<Rightarrow> e = e2
           | Inr content \<Rightarrow> (case decode w content of Inl e3 \<Rightarrow> e = e3 | Inr im \<Rightarrow> False)))"

text \<open>An overlay all of whose pixels have the same alpha value.\<close>

definition uniform_alpha :: "pil_image \<Rightarrow> u8 \<Rightarrow> bool" where
  "uniform_alpha im a \<longleftrightarrow>
     (\<forall>x y. x < fst (isize im) \<and> y < snd (isize im) \<longrightarrow> alpha (pixels im x y) = a)"

subsection \<open>The square of the logo\<close>

definition in_logo_box :: "nat \<Rightarrow> nat \<Rightarrow> bool" where
  "in_logo_box x y \<longleftrightarrow>
     LOGO_X \<le> x \<and> x < LOGO_X + LOGO_SIZE \<and> LOGO_Y \<le> y \<and> y < LOGO_Y + LOGO_SIZE"

subsection \<open>Concrete inputs\<close>

text \<open>
  Inputs on which the model is run: a nearest-neighbour resampler as one instance of
  the resampler (it raises on an image without pixels), an 800 by 200 asset whose left
  half is opaque and whose right half is transparent, a world in which every outside
  call fails, and a run that starts with no template file and an empty log.
\<close>

definition nearest :: resampler where
  "nearest im sz =
     (if fst (isize im) = 0 \<or> snd (isize im) = 0 then Inl (Exn ''empty image'')
      else Inr (\<lambda>x y. pixels im (x * fst (isize im) div fst sz) (y * snd (isize im) div snd sz)))"

definition wide_asset :: pil_image where
  "wide_asset =
     \<lparr>isize = (800, 200),
      pixels = (\<lambda>x y. \<lparr>red = of_nat x, green = of_nat y, blue = 64,
                        alpha = (if x < 400 then 255 else 0)\<rparr>)\<rparr>"

definition offline :: world where
  "offline =
     \<lparr>template_response = Inl (Exn ''timeout''), write_error = None, save_error = None,
      api_key = Inr (Some ''sk-test''),
      generate_response = (\<lambda>p. Inl (Exn ''connection error'')),
      image_response = (\<lambda>u. Inl (Exn ''connection error'')),
      decode = (\<lambda>bs. Inl (Exn ''cannot identify image file'')),
      resample = nearest\<rparr>"

definition fresh :: sys where
  "fresh = \<lparr>template_file = None, log = []\<rparr>"

text \<open>
  A world in which the generator answers with \<open>wide_asset\<close>, and a state whose template
  file holds bytes that are not an image.
\<close>

definition studio :: world where
  "studio =
     \<lparr>template_response = Inr [137, 80, 78, 71], write_error = None, save_error = None,
      api_key = Inr (Some ''sk-test''),
      generate_response = (\<lambda>p. Inr ''https://images.example/1.png''),
      image_response = (\<lambda>u. Inr [1]),
      decode = (\<lambda>bs. if bs = [1] then Inr wide_asset
                      else Inl (Exn ''cannot identify image file'')),
      resample = nearest\<rparr>"

definition corrupt_cache :: sys where
  "corrupt_cache = \<lparr>template_file = Some (Raw_bytes []), log = []\<rparr>"

text \<open>
  A state whose template file is a PNG of a given image, a red base canvas, a small and
  a canvas-sized opaque image of one colour, and an image without pixels.
\<close>

definition cached :: "pil_image \<Rightarrow> sys" where
  "cached im = \<lparr>template_file = Some (Png_of im), log = []\<rparr>"

definition red_canvas :: pil_image where
  "red_canvas = Image_new (585, 559) \<lparr>red = 255, green = 0, blue = 0, alpha = 255\<rparr>"

definition opaque_small :: pil_image where
  "opaque_small = Image_new (2, 2) \<lparr>red = 1, green = 2, blue = 3, alpha = 255\<rparr>"

definition opaque_fitted :: pil_image where
  "opaque_fitted = Image_new (585, 559) \<lparr>red = 1, green = 2, blue = 3, alpha = 255\<rparr>"

definition empty_image :: pil_image where
  "empty_image = Image_new (0, 0) transparent_black"

definition solid :: pil_image where
  "solid = Image_new (2, 2) \<lparr>red = 10, green = 20, blue = 30, alpha = 5\<rparr>"

definition two_tone :: pil_image where
  "two_tone =
     \<lparr>isize = (2, 1),
      pixels = (\<lambda>x y. if x = 0 then \<lparr>red = 0, green = 0, blue = 0, alpha = 255\<rparr>
                        else \<lparr>red = 255, green = 255, blue = 255, alpha = 0\<rparr>)\<rparr>"

section \<open>Properties\<close>

subsection \<open>Arithmetic of the blending macros\<close>

lemmas config_defs =
  ROBLOX_WIDTH_def ROBLOX_HEIGHT_def LOGO_X_def LOGO_Y_def LOGO_SIZE_def PATTERN_SIZE_def

lemma unat_u8_le: "unat (w :: u8) \<le> 255"
  using unsigned_less [of w, where ?'a = nat] by simp

lemma DIV255_exact: "v \<le> 255 \<Longrightarrow> DIV255 (v * 255) = v"
  unfolding DIV255_def Let_def by arith

lemma BLEND_0: "BLEND 0 a b = a"
  by (simp add: BLEND_def DIV255_exact unat_u8_le)

lemma BLEND_255: "BLEND 255 a b = b"
  by (simp add: BLEND_def DIV255_exact unat_u8_le)

lemma blend_px_0: "blend_px 0 out inp = out"
  by (simp add: blend_px_def BLEND_0)

lemma blend_px_255: "blend_px 255 out inp = inp"
  by (simp add: blend_px_def BLEND_255)

subsection \<open>The average colour\<close>

lemma length_pixel_list: "length (pixel_list im) = fst (isize im) * snd (isize im)"
  by (simp add: pixel_list_def length_concat comp_def sum_list_triv)

lemma sum_list_u8_le: "sum_list (map (\<lambda>p. unat (ch p :: u8)) ps) \<le> 255 * length ps"
proof (induction ps)
  case Nil
  then show ?case by simp
next
  case (Cons p ps)
  then show ?case using unat_u8_le [of "ch p"] by simp
qed

lemma band_mean_le: "band_sum ch im div (fst (isize im) * snd (isize im)) \<le> 255"
proof (cases "length (pixel_list im) = 0")
  case True
  then show ?thesis by (simp add: band_sum_def)
next
  case False
  have "band_sum ch im div length (pixel_list im)
      \<le> (255 * length (pixel_list im)) div length (pixel_list im)"
    unfolding band_sum_def by (rule div_le_mono) (rule sum_list_u8_le)
  also have "\<dots> = 255" using False by simp
  finally show ?thesis by (simp add: length_pixel_list)
qed

lemma real_sum_list: "sum_list (map (\<lambda>p. real (f p)) ps) = real (sum_list (map f ps))"
  by (induction ps) simp_all

lemma band_mean_floor:
  "int (band_sum ch im div (fst (isize im) * snd (isize im))) = \<lfloor>channel_mean ch im\<rfloor>"
proof -
  have "channel_mean ch im = real (band_sum ch im) / real (fst (isize im) * snd (isize im))"
    by (simp only: channel_mean_def band_sum_def real_sum_list length_pixel_list)
  then show ?thesis
    by (simp only: floor_divide_of_nat_eq)
qed

lemma sum_list_const: "list_all (\<lambda>p. ch p = c) ps \<Longrightarrow>
    sum_list (map (\<lambda>p. unat (ch p :: u8)) ps) = length ps * unat c"
  by (induction ps) simp_all

lemma band_mean_uniform:
  assumes "list_all (\<lambda>p. ch p = c) (pixel_list im)" and "0 < fst (isize im) * snd (isize im)"
  shows "band_sum ch im div (fst (isize im) * snd (isize im)) = unat c"
  using assms by (simp add: band_sum_def sum_list_const length_pixel_list)

lemma sum_list_two_tone:
  "list_all (\<lambda>p. ch p = (if white p then 255 else 0)) ps \<Longrightarrow>
    sum_list (map (\<lambda>p. unat (ch p :: u8)) ps) = 255 * length (filter white ps)"
  by (induction ps) simp_all

lemma half_mean: "0 < n \<Longrightarrow> 2 * k = n \<Longrightarrow> (255 * k) div n = (127::nat)"
  by auto

lemma band_mean_half:
  assumes h: "half_black_half_white im" and ne: "0 < fst (isize im) * snd (isize im)"
    and ch: "\<And>R G B p. has_rgb R G B p \<Longrightarrow> R = G \<Longrightarrow> G = B \<Longrightarrow> ch p = R"
  shows "band_sum ch im div (fst (isize im) * snd (isize im)) = 127"
proof -
  have "list_all (\<lambda>p. has_rgb 0 0 0 p \<or> has_rgb 255 255 255 p) (pixel_list im)"
    using h by (simp add: half_black_half_white_def)
  then have bw: "list_all (\<lambda>p. ch p = (if has_rgb 255 255 255 p then 255 else 0)) (pixel_list im)"
    by (rule list.pred_mono_strong) (auto dest: ch)
  have half: "2 * length (filter (has_rgb 255 255 255) (pixel_list im))
      = fst (isize im) * snd (isize im)"
    using h by (simp add: half_black_half_white_def length_pixel_list)
  show ?thesis
    unfolding band_sum_def sum_list_two_tone [OF bw] using half_mean [OF ne half] .
qed

lemma uniform_channels:
  assumes "uniform_rgb im R G B"
  shows "list_all (\<lambda>p. red p = R) (pixel_list im)"
    and "list_all (\<lambda>p. green p = G) (pixel_list im)"
    and "list_all (\<lambda>p. blue p = B) (pixel_list im)"
  using assms by (auto simp: uniform_rgb_def has_rgb_def list_all_iff)

text \<open>
  C5. On an image with at least one pixel, \<open>get_average_color\<close> returns for each of the
  three colour channels the arithmetic mean of that channel over all pixels, rounded
  down, a number between 0 and 255; the alpha channel plays no part. On an image of one
  colour the result is that colour, and on an image that is half black and half white
  it is (127, 127, 127).
\<close>

theorem average_color_truncated_mean:
  assumes ne: "0 < fst (isize im) \<and> 0 < snd (isize im)"
  shows "\<exists>r g b. get_average_color im = Inr (r, g, b)
    \<and> int r = \<lfloor>channel_mean red im\<rfloor> \<and> int g = \<lfloor>channel_mean green im\<rfloor>
    \<and> int b = \<lfloor>channel_mean blue im\<rfloor>
    \<and> r \<le> 255 \<and> g \<le> 255 \<and> b \<le> 255
    \<and> (uniform_rgb im R G B \<longrightarrow> (r, g, b) = (unat R, unat G, unat B))
    \<and> (half_black_half_white im \<longrightarrow> (r, g, b) = (127, 127, 127))"
proof -
  let ?n = "fst (isize im) * snd (isize im)"
  from ne have pos: "0 < ?n" by simp
  have res: "get_average_color im =
      Inr (band_sum red im div ?n, band_sum green im div ?n, band_sum blue im div ?n)"
    using pos by (simp add: get_average_color_def Let_def)
  have uni: "uniform_rgb im R G B \<longrightarrow>
      (band_sum red im div ?n, band_sum green im div ?n, band_sum blue im div ?n)
        = (unat R, unat G, unat B)"
    using uniform_channels [of im R G B] pos by (simp add: band_mean_uniform)
  have half: "half_black_half_white im \<longrightarrow>
      (band_sum red im div ?n, band_sum green im div ?n, band_sum blue im div ?n)
        = (127, 127, 127)"
  proof
    assume h: "half_black_half_white im"
    have "band_sum red im div ?n = 127"
      by (rule band_mean_half [OF h pos]) (simp add: has_rgb_def)
    moreover have "band_sum green im div ?n = 127"
      by (rule band_mean_half [OF h pos]) (simp add: has_rgb_def)
    moreover have "band_sum blue im div ?n = 127"
      by (rule band_mean_half [OF h pos]) (simp add: has_rgb_def)
    ultimately show "(band_sum red im div ?n, band_sum green im div ?n, band_sum blue im div ?n)
        = (127, 127, 127)" by simp
  qed
  show ?thesis
    using res uni half band_mean_floor [of red im] band_mean_floor [of green im]
      band_mean_floor [of blue im] band_mean_le [of red im] band_mean_le [of green im]
      band_mean_le [of blue im]
    by blast
qed

theorem average_color_truncated_mean_witness:
  "(0 < fst (isize solid) \<and> 0 < snd (isize solid)) \<and> uniform_rgb solid 10 20 30
    \<and> get_average_color solid = Inr (10, 20, 30)
    \<and> (0 < fst (isize two_tone) \<and> 0 < snd (isize two_tone)) \<and> half_black_half_white two_tone
    \<and> get_average_color two_tone = Inr (127, 127, 127)"
proof -
  have s: "0 < fst (isize solid) \<and> 0 < snd (isize solid)"
    by (simp add: solid_def Image_new_def)
  have u: "uniform_rgb solid 10 20 30"
    by (simp add: uniform_rgb_def pixel_list_def solid_def Image_new_def has_rgb_def upt_rec)
  have t: "0 < fst (isize two_tone) \<and> 0 < snd (isize two_tone)"
    by (simp add: two_tone_def)
  have h: "half_black_half_white two_tone"
    by (simp add: half_black_half_white_def pixel_list_def two_tone_def has_rgb_def upt_rec)
  show ?thesis
    using s u t h average_color_truncated_mean [OF s, of 10 20 30]
      average_color_truncated_mean [OF t, of 0 0 0]
    by auto
qed

subsection \<open>Sizes and pixels after a paste\<close>

lemma isize_paste: "isize (paste base im box) = isize base"
  by (simp add: paste_def)

lemma isize_paste_mask: "isize (paste_mask base im msk box) = isize base"
  by (simp add: paste_mask_def)

lemma isize_Image_new: "isize (Image_new sz c) = sz"
  by (simp add: Image_new_def)

lemma pixels_Image_new: "pixels (Image_new sz c) x y = c"
  by (simp add: Image_new_def)

lemma isize_fold_paste:
  "isize (fold (\<lambda>y b. paste b tile (f y)) ys base) = isize base"
  by (induction ys arbitrary: base) (simp_all add: isize_paste)

lemma isize_grid:
  "isize (fold (\<lambda>x b. fold (\<lambda>y b. paste b tile (x, y)) ys b) xs base) = isize base"
  by (induction xs arbitrary: base) (simp_all add: isize_fold_paste)

lemma resize_size: "resize rs im sz = Inr r \<Longrightarrow> isize r = sz"
  by (auto simp: resize_def split: sum.splits)

lemma grid_columns: "py_range 0 ROBLOX_WIDTH PATTERN_SIZE = [0, 150, 300, 450]"
  by (simp add: py_range_def config_defs upt_rec)

lemma grid_rows: "py_range 0 ROBLOX_HEIGHT PATTERN_SIZE = [0, 150, 300, 450]"
  by (simp add: py_range_def config_defs upt_rec)

lemma pattern_returns:
  "resize rs ai_image (PATTERN_SIZE, PATTERN_SIZE) = Inr tile \<Longrightarrow>
     \<exists>c. create_pattern_mode_image rs ai_image = Inr c \<and> isize c = (585, 559)"
  by (simp add: create_pattern_mode_image_def isize_grid Image_new_def
      ROBLOX_WIDTH_def ROBLOX_HEIGHT_def)

lemma pixels_paste_tile:
  assumes "isize base = (585, 559)" and "isize tile = (150, 150)"
  shows "pixels (paste base tile (bx, by)) x y =
     (if bx \<le> x \<and> x < bx + 150 \<and> x < 585 \<and> by \<le> y \<and> y < by + 150 \<and> y < 559
      then pixels tile (x - bx) (y - by) else pixels base x y)"
  using assms by (auto simp: paste_def in_region_def paste_region_def Let_def)

lemma mod_150_cases:
  "y < 150 \<Longrightarrow> y mod 150 = (y::nat)"
  "150 \<le> y \<Longrightarrow> y < 300 \<Longrightarrow> y mod 150 = y - 150"
  "300 \<le> y \<Longrightarrow> y < 450 \<Longrightarrow> y mod 150 = y - 300"
  "450 \<le> y \<Longrightarrow> y < 600 \<Longrightarrow> y mod 150 = y - 450"
  by (simp_all add: le_mod_geq)

lemma column_pixels:
  assumes b: "isize base = (585, 559)" and t: "isize tile = (150, 150)"
  shows "pixels (fold (\<lambda>y b. paste b tile (bx, y)) [0, 150, 300, 450] base) x y =
     (if bx \<le> x \<and> x < bx + 150 \<and> x < 585 \<and> y < 559
      then pixels tile (x - bx) (y mod 150) else pixels base x y)"
proof -
  consider "y < 150" | "150 \<le> y" "y < 300" | "300 \<le> y" "y < 450" | "450 \<le> y" "y < 559"
    | "559 \<le> y" by linarith
  then show ?thesis
    by cases (simp_all add: pixels_paste_tile isize_paste b t mod_150_cases)
qed

lemma grid_pixels:
  assumes b: "isize base = (585, 559)" and t: "isize tile = (150, 150)"
    and x: "x < 585" and y: "y < 559"
  shows "pixels (fold (\<lambda>x b. fold (\<lambda>y b. paste b tile (x, y)) [0, 150, 300, 450] b)
           [0, 150, 300, 450] base) x y = pixels tile (x mod 150) (y mod 150)"
proof -
  define col where "col = (\<lambda>bx b. fold (\<lambda>y b. paste b tile (bx, y)) [0, 150, 300, 450] b)"
  have sz: "\<And>bx b. isize (col bx b) = isize b"
    by (simp only: col_def isize_fold_paste)
  have px: "\<And>bx b. isize b = (585, 559) \<Longrightarrow> pixels (col bx b) x y =
     (if bx \<le> x \<and> x < bx + 150 then pixels tile (x - bx) (y mod 150) else pixels b x y)"
    using x y t by (simp only: col_def column_pixels) simp
  have unroll: "fold (\<lambda>x b. fold (\<lambda>y b. paste b tile (x, y)) [0, 150, 300, 450] b)
           [0, 150, 300, 450] base = col 450 (col 300 (col 150 (col 0 base)))"
    by (simp only: col_def fold_simps id_apply comp_apply)
  consider "x < 150" | "150 \<le> x" "x < 300" | "300 \<le> x" "x < 450" | "450 \<le> x" "x < 585"
    using x by linarith
  then show ?thesis
    unfolding unroll by cases (simp_all add: px sz b mod_150_cases)
qed

text \<open>
  C2. Whatever the size of the generated asset: when the resize to the logo size
  returns, \<open>create_logo_mode_image\<close> returns a canvas of exactly 585 by 559 pixels, and
  when the resize to the tile size returns, \<open>create_pattern_mode_image\<close> returns a canvas
  of exactly 585 by 559 pixels.
\<close>

theorem compose_canvas_size:
  "(resize rs ai_image (LOGO_SIZE, LOGO_SIZE) = Inr logo \<longrightarrow>
      (\<exists>c1. create_logo_mode_image rs ai_image = Inr c1 \<and> isize c1 = (585, 559)))
   \<and> (resize rs ai_image (PATTERN_SIZE, PATTERN_SIZE) = Inr tile \<longrightarrow>
      (\<exists>c2. create_pattern_mode_image rs ai_image = Inr c2 \<and> isize c2 = (585, 559)))"
proof -
  have "\<exists>c1. create_logo_mode_image rs ai_image = Inr c1 \<and> isize c1 = (585, 559)"
    if r: "resize rs ai_image (LOGO_SIZE, LOGO_SIZE) = Inr logo"
  proof -
    have "isize logo = (LOGO_SIZE, LOGO_SIZE)"
      using r by (rule resize_size)
    then have "0 < fst (isize logo) * snd (isize logo)"
      by (simp add: config_defs)
    then obtain r g b where avg: "get_average_color logo = Inr (r, g, b)"
      by (simp add: get_average_color_def Let_def)
    show ?thesis
      using r avg
      by (simp add: create_logo_mode_image_def Let_def isize_paste_mask isize_Image_new
          config_defs)
  qed
  moreover have "\<exists>c2. create_pattern_mode_image rs ai_image = Inr c2 \<and> isize c2 = (585, 559)"
    if "resize rs ai_image (PATTERN_SIZE, PATTERN_SIZE) = Inr tile"
    using that by (rule pattern_returns)
  ultimately show ?thesis by blast
qed

lemma wide_logo:
  "resize nearest wide_asset (LOGO_SIZE, LOGO_SIZE) =
     Inr \<lparr>isize = (128, 128),
          pixels = (\<lambda>x y. pixels wide_asset (x * 800 div 128) (y * 200 div 128))\<rparr>"
  by (simp add: resize_def nearest_def wide_asset_def config_defs)

lemma wide_tile:
  "resize nearest wide_asset (PATTERN_SIZE, PATTERN_SIZE) =
     Inr \<lparr>isize = (150, 150),
          pixels = (\<lambda>x y. pixels wide_asset (x * 800 div 150) (y * 200 div 150))\<rparr>"
  by (simp add: resize_def nearest_def wide_asset_def config_defs)

theorem compose_canvas_size_witness:
  "resize nearest wide_asset (LOGO_SIZE, LOGO_SIZE) =
     Inr \<lparr>isize = (128, 128),
          pixels = (\<lambda>x y. pixels wide_asset (x * 800 div 128) (y * 200 div 128))\<rparr>
   \<and> resize nearest wide_asset (PATTERN_SIZE, PATTERN_SIZE) =
     Inr \<lparr>isize = (150, 150),
          pixels = (\<lambda>x y. pixels wide_asset (x * 800 div 150) (y * 200 div 150))\<rparr>
   \<and> (\<exists>c1 c2. create_logo_mode_image nearest wide_asset = Inr c1 \<and> isize c1 = (585, 559)
        \<and> create_pattern_mode_image nearest wide_asset = Inr c2 \<and> isize c2 = (585, 559))"
  using compose_canvas_size
    [of nearest wide_asset
      "\<lparr>isize = (128, 128),
        pixels = (\<lambda>x y. pixels wide_asset (x * 800 div 128) (y * 200 div 128))\<rparr>"
      "\<lparr>isize = (150, 150),
        pixels = (\<lambda>x y. pixels wide_asset (x * 800 div 150) (y * 200 div 150))\<rparr>"]
    wide_logo wide_tile
  by blast

text \<open>
  C3. When the resize to 128 by 128 returns the logo, \<open>create_logo_mode_image\<close> returns a
  585 by 559 canvas. Outside the 128 by 128 square at (231, 74) every pixel is the
  average colour of the logo with alpha 255. Inside the square every pixel is the blend
  of that background with the logo's pixel, weighted by the logo's own alpha: where the
  logo is fully transparent the pixel stays the background, where it is fully opaque
  the pixel is the logo's.
\<close>

theorem logo_mode_composition:
  assumes "resize rs ai_image (LOGO_SIZE, LOGO_SIZE) = Inr logo"
  shows "\<exists>r g b canvas. get_average_color logo = Inr (r, g, b)
    \<and> create_logo_mode_image rs ai_image = Inr canvas \<and> isize canvas = (585, 559)
    \<and> (\<forall>x y. x < 585 \<and> y < 559 \<longrightarrow>
          (let bg = \<lparr>red = of_nat r, green = of_nat g, blue = of_nat b, alpha = 255\<rparr>;
               lp = pixels logo (x - 231) (y - 74)
           in (\<not> in_logo_box x y \<longrightarrow> getpixel canvas x y = Some bg)
            \<and> (in_logo_box x y \<longrightarrow>
                 getpixel canvas x y = Some (blend_px (alpha lp) bg lp)
                 \<and> (alpha lp = 0 \<longrightarrow> getpixel canvas x y = Some bg)
                 \<and> (alpha lp = 255 \<longrightarrow> getpixel canvas x y = Some lp))))"
proof -
  have sz: "isize logo = (128, 128)"
    using assms by (simp add: resize_size config_defs)
  then obtain r g b where avg: "get_average_color logo = Inr (r, g, b)"
    by (simp add: get_average_color_def Let_def)
  define bg where "bg = \<lparr>red = of_nat r, green = of_nat g, blue = of_nat b, alpha = (255::u8)\<rparr>"
  define canvas where
    "canvas = paste_mask (Image_new (ROBLOX_WIDTH, ROBLOX_HEIGHT) bg) logo logo (LOGO_X, LOGO_Y)"
  have res: "create_logo_mode_image rs ai_image = Inr canvas"
    using assms avg by (simp add: create_logo_mode_image_def Let_def canvas_def bg_def)
  have csz: "isize canvas = (585, 559)"
    by (simp add: canvas_def isize_paste_mask isize_Image_new config_defs)
  have region: "in_region (LOGO_X, LOGO_Y)
      (paste_region (ROBLOX_WIDTH, ROBLOX_HEIGHT) (128, 128) (LOGO_X, LOGO_Y)) x y
      \<longleftrightarrow> in_logo_box x y" for x y
    by (simp add: in_region_def paste_region_def in_logo_box_def config_defs)
  have px: "pixels canvas x y =
      (if in_logo_box x y
       then blend_px (alpha (pixels logo (x - 231) (y - 74))) bg (pixels logo (x - 231) (y - 74))
       else bg)" for x y
    by (simp add: canvas_def paste_mask_def isize_Image_new pixels_Image_new sz region)
      (simp add: config_defs)
  have "(\<not> in_logo_box x y \<longrightarrow> getpixel canvas x y = Some bg)
      \<and> (in_logo_box x y \<longrightarrow>
           getpixel canvas x y =
             Some (blend_px (alpha (pixels logo (x - 231) (y - 74))) bg
                     (pixels logo (x - 231) (y - 74)))
           \<and> (alpha (pixels logo (x - 231) (y - 74)) = 0 \<longrightarrow> getpixel canvas x y = Some bg)
           \<and> (alpha (pixels logo (x - 231) (y - 74)) = 255 \<longrightarrow>
                getpixel canvas x y = Some (pixels logo (x - 231) (y - 74))))"
    if "x < 585 \<and> y < 559" for x y
    using that by (simp add: getpixel_def csz px blend_px_0 blend_px_255)
  then show ?thesis
    using avg res csz unfolding Let_def bg_def by blast
qed

theorem logo_mode_composition_witness:
  "resize nearest wide_asset (LOGO_SIZE, LOGO_SIZE) =
     Inr \<lparr>isize = (128, 128),
          pixels = (\<lambda>x y. pixels wide_asset (x * 800 div 128) (y * 200 div 128))\<rparr>
   \<and> \<not> in_logo_box 0 0 \<and> in_logo_box 300 100 \<and> in_logo_box 240 100
   \<and> alpha (pixels wide_asset (69 * 800 div 128) (26 * 200 div 128)) = 0
   \<and> alpha (pixels wide_asset (9 * 800 div 128) (26 * 200 div 128)) = 255
   \<and> (\<exists>r g b canvas.
         create_logo_mode_image nearest wide_asset = Inr canvas
       \<and> getpixel canvas 0 0
           = Some \<lparr>red = of_nat r, green = of_nat g, blue = of_nat b, alpha = 255\<rparr>
       \<and> getpixel canvas 300 100
           = Some \<lparr>red = of_nat r, green = of_nat g, blue = of_nat b, alpha = 255\<rparr>
       \<and> getpixel canvas 240 100 = Some \<lparr>red = 56, green = 40, blue = 64, alpha = 255\<rparr>)"
proof -
  let ?L = "\<lparr>isize = (128, 128),
          pixels = (\<lambda>x y. pixels wide_asset (x * 800 div 128) (y * 200 div 128))\<rparr>"
  have h: "resize nearest wide_asset (LOGO_SIZE, LOGO_SIZE) = Inr ?L"
    by (simp add: resize_def nearest_def wide_asset_def config_defs)
  have b0: "\<not> in_logo_box 0 0" and b1: "in_logo_box 300 100" and b2: "in_logo_box 240 100"
    by (simp_all add: in_logo_box_def config_defs)
  have a1: "alpha (pixels wide_asset (69 * 800 div 128) (26 * 200 div 128)) = 0"
    by (simp add: wide_asset_def)
  have a2: "alpha (pixels wide_asset (9 * 800 div 128) (26 * 200 div 128)) = 255"
    by (simp add: wide_asset_def)
  have p2: "pixels wide_asset (9 * 800 div 128) (26 * 200 div 128)
      = \<lparr>red = 56, green = 40, blue = 64, alpha = 255\<rparr>"
    by (simp add: wide_asset_def)
  from logo_mode_composition [OF h]
  obtain r g b canvas where res: "create_logo_mode_image nearest wide_asset = Inr canvas"
    and px: "\<And>x y. x < 585 \<and> y < 559 \<Longrightarrow>
          (let bg = \<lparr>red = of_nat r, green = of_nat g, blue = of_nat b, alpha = 255\<rparr>;
               lp = pixels ?L (x - 231) (y - 74)
           in (\<not> in_logo_box x y \<longrightarrow> getpixel canvas x y = Some bg)
            \<and> (in_logo_box x y \<longrightarrow>
                 getpixel canvas x y = Some (blend_px (alpha lp) bg lp)
                 \<and> (alpha lp = 0 \<longrightarrow> getpixel canvas x y = Some bg)
                 \<and> (alpha lp = 255 \<longrightarrow> getpixel canvas x y = Some lp)))"
    by blast
  have "getpixel canvas 0 0
      = Some \<lparr>red = of_nat r, green = of_nat g, blue = of_nat b, alpha = 255\<rparr>"
    using px [of 0 0] b0 by (simp add: Let_def)
  moreover have "getpixel canvas 300 100
      = Some \<lparr>red = of_nat r, green = of_nat g, blue = of_nat b, alpha = 255\<rparr>"
    using px [of 300 100] b1 a1 by (simp add: Let_def blend_px_0)
  moreover have "getpixel canvas 240 100 = Some \<lparr>red = 56, green = 40, blue = 64, alpha = 255\<rparr>"
    using px [of 240 100] b2 a2 p2 by (simp add: Let_def blend_px_255)
  ultimately show ?thesis
    using h b0 b1 b2 a1 a2 res by blast
qed

text \<open>
  C4. When the resize to 150 by 150 returns the tile, \<open>create_pattern_mode_image\<close> returns
  a 585 by 559 canvas made by pasting the tile at every point of the grid 0, 150, 300,
  450 in both directions. Every pixel of the canvas is the pixel of the tile at the same
  position modulo 150, all four channels copied as they are: the tile is neither blended
  nor scaled, and no pixel is left uncovered. The pastes of the column at x = 450 write
  135 columns of the tile and the pastes of the row at y = 450 write 109 rows; the rest
  of those tiles falls outside the canvas.
\<close>

theorem pattern_mode_tiling:
  assumes "resize rs ai_image (PATTERN_SIZE, PATTERN_SIZE) = Inr tile"
  shows "\<exists>canvas. create_pattern_mode_image rs ai_image = Inr canvas
    \<and> isize canvas = (585, 559)
    \<and> py_range 0 ROBLOX_WIDTH PATTERN_SIZE = [0, 150, 300, 450]
    \<and> py_range 0 ROBLOX_HEIGHT PATTERN_SIZE = [0, 150, 300, 450]
    \<and> (\<forall>x y. x < 585 \<and> y < 559 \<longrightarrow>
          getpixel canvas x y = Some (pixels tile (x mod 150) (y mod 150)))
    \<and> (\<forall>y. fst (paste_region (isize canvas) (isize tile) (450, y)) = 135)
    \<and> (\<forall>x. snd (paste_region (isize canvas) (isize tile) (x, 450)) = 109)"
proof -
  have t: "isize tile = (150, 150)"
    using assms by (simp add: resize_size config_defs)
  define canvas where
    "canvas = fold (\<lambda>x b. fold (\<lambda>y b. paste b tile (x, y)) [0, 150, 300, 450] b)
        [0, 150, 300, 450] (Image_new (585, 559) transparent_black)"
  have res: "create_pattern_mode_image rs ai_image = Inr canvas"
    using assms unfolding create_pattern_mode_image_def grid_columns grid_rows canvas_def
    by (simp add: ROBLOX_WIDTH_def ROBLOX_HEIGHT_def)
  have csz: "isize canvas = (585, 559)"
    by (simp only: canvas_def isize_grid isize_Image_new)
  have px: "getpixel canvas x y = Some (pixels tile (x mod 150) (y mod 150))"
    if xy: "x < 585 \<and> y < 559" for x y
  proof -
    have "pixels canvas x y = pixels tile (x mod 150) (y mod 150)"
      unfolding canvas_def by (rule grid_pixels [OF isize_Image_new t]) (use xy in simp_all)
    then show ?thesis
      using xy by (simp add: getpixel_def csz)
  qed
  have crop: "fst (paste_region (isize canvas) (isize tile) (450, y)) = 135"
    "snd (paste_region (isize canvas) (isize tile) (x, 450)) = 109" for x y
    by (simp_all add: paste_region_def csz t)
  show ?thesis
    using res csz px crop grid_columns grid_rows by blast
qed

theorem pattern_mode_tiling_witness:
  "resize nearest wide_asset (PATTERN_SIZE, PATTERN_SIZE) =
     Inr \<lparr>isize = (150, 150),
          pixels = (\<lambda>x y. pixels wide_asset (x * 800 div 150) (y * 200 div 150))\<rparr>
   \<and> (\<exists>canvas. create_pattern_mode_image nearest wide_asset = Inr canvas
        \<and> getpixel canvas 500 500 = Some \<lparr>red = 10, green = 66, blue = 64, alpha = 255\<rparr>
        \<and> getpixel canvas 584 0 = Some \<lparr>red = 202, green = 0, blue = 64, alpha = 0\<rparr>)"
proof -
  let ?T = "\<lparr>isize = (150, 150),
          pixels = (\<lambda>x y. pixels wide_asset (x * 800 div 150) (y * 200 div 150))\<rparr>"
  have h: "resize nearest wide_asset (PATTERN_SIZE, PATTERN_SIZE) = Inr ?T"
    by (simp add: resize_def nearest_def wide_asset_def config_defs)
  have p1: "pixels ?T (500 mod 150) (500 mod 150)
      = \<lparr>red = 10, green = 66, blue = 64, alpha = 255\<rparr>"
    by (simp add: wide_asset_def)
  have p2: "pixels ?T (584 mod 150) (0 mod 150) = \<lparr>red = 202, green = 0, blue = 64, alpha = 0\<rparr>"
    by (simp add: wide_asset_def)
  from pattern_mode_tiling [OF h]
  obtain canvas where res: "create_pattern_mode_image nearest wide_asset = Inr canvas"
    and px: "\<And>x y. x < 585 \<and> y < 559 \<Longrightarrow>
          getpixel canvas x y = Some (pixels ?T (x mod 150) (y mod 150))"
    by blast
  have "getpixel canvas 500 500 = Some \<lparr>red = 10, green = 66, blue = 64, alpha = 255\<rparr>"
    using px [of 500 500] p1 by simp
  moreover have "getpixel canvas 584 0 = Some \<lparr>red = 202, green = 0, blue = 64, alpha = 0\<rparr>"
    using px [of 584 0] p2 by simp
  ultimately show ?thesis
    using h res by blast
qed

subsection \<open>The template cache\<close>

lemma download_template_cached:
  "template_file s \<noteq> None \<Longrightarrow> download_template w s = (Inr (), s)"
  by (simp add: download_template_def)

lemma download_template_creates:
  "download_template w s = (Inr u, s') \<Longrightarrow> template_file s' \<noteq> None"
  by (auto simp: download_template_def template_fallback_def emit_def Let_def
      split: if_splits sum.splits option.splits)

lemma new_events_append: "log s' = log s @ es \<Longrightarrow> new_events s s' = es"
  by (simp add: new_events_def)

lemma download_template_log:
  "\<exists>es. log (snd (download_template w s)) = log s @ es
     \<and> length (filter template_fetch es) \<le> 1 \<and> \<not> list_ex generator_call es
     \<and> \<not> list_ex output_event es"
  by (simp add: download_template_def template_fallback_def emit_def Let_def
      split: sum.splits option.splits)

text \<open>
  C8. \<open>download_template\<close> looks at the cache first: when the template file exists, the
  call returns at once, fetches nothing and leaves the file and the log as they were.
  Two calls in sequence do what the first call alone does, whatever the network answers
  the second time, and together they fetch the template at most once.
\<close>

theorem download_template_idempotent:
  "(template_file s \<noteq> None \<longrightarrow> download_template w1 s = (Inr (), s))
   \<and> download_template_twice w1 w2 s = download_template w1 s
   \<and> length (filter template_fetch
        (new_events s (snd (download_template_twice w1 w2 s)))) \<le> 1"
proof -
  have twice: "download_template_twice w1 w2 s = download_template w1 s"
  proof (cases "download_template w1 s")
    case (Pair r s')
    show ?thesis
    proof (cases r)
      case (Inl e)
      with Pair show ?thesis by (simp add: download_template_twice_def)
    next
      case (Inr u)
      with Pair have "template_file s' \<noteq> None"
        by (auto dest: download_template_creates)
      then have "download_template w2 s' = (Inr (), s')"
        by (rule download_template_cached)
      with Pair Inr show ?thesis by (simp add: download_template_twice_def)
    qed
  qed
  obtain es where "log (snd (download_template w1 s)) = log s @ es"
    and "length (filter template_fetch es) \<le> 1"
    using download_template_log [of w1 s] by blast
  then have "length (filter template_fetch (new_events s (snd (download_template w1 s)))) \<le> 1"
    by (simp add: new_events_append)
  with twice show ?thesis
    by (simp add: download_template_cached)
qed

theorem download_template_idempotent_witness:
  "template_file corrupt_cache \<noteq> None
   \<and> download_template offline corrupt_cache = (Inr (), corrupt_cache)
   \<and> download_template_twice offline studio fresh = download_template offline fresh
   \<and> new_events fresh (snd (download_template_twice offline studio fresh))
       = [Template_get TEMPLATE_URL, St_error ''Failed to download template: timeout'',
          St_info ''Creating a transparent placeholder template...'']"
proof -
  have h: "template_file corrupt_cache \<noteq> None"
    by (simp add: corrupt_cache_def)
  have ev: "new_events fresh (snd (download_template offline fresh))
       = [Template_get TEMPLATE_URL, St_error ''Failed to download template: timeout'',
          St_info ''Creating a transparent placeholder template...'']"
    by (simp add: new_events_def download_template_def template_fallback_def emit_def
        offline_def fresh_def Let_def)
  show ?thesis
    using h ev download_template_idempotent [of corrupt_cache offline studio]
      download_template_idempotent [of fresh offline studio]
    by simp
qed

subsection \<open>The run of the script\<close>

lemma emit_emit: "emit bs (emit as s) = emit (as @ bs) s"
  by (simp add: emit_def)

lemma generate_image_fails:
  assumes "generator_fails w p e"
  shows "\<exists>evs. generate_image w client p s
      = (None, emit (evs @ [St_error (''Image generation failed: '' @ str e)]) s)
    \<and> list_all generator_call evs"
proof (cases "generate_response w p")
  case (Inl e1)
  with assms have "generate_image w client p s
      = (None, emit ([Images_generate p] @ [St_error (''Image generation failed: '' @ str e)]) s)"
    by (simp add: generator_fails_def generate_image_def generation_failed_def emit_emit)
  then show ?thesis by (intro exI [of _ "[Images_generate p]"]) simp
next
  case (Inr img_url)
  with assms have "generate_image w client p s
      = (None, emit ([Images_generate p, Image_get img_url]
                      @ [St_error (''Image generation failed: '' @ str e)]) s)"
    by (auto simp: generator_fails_def generate_image_def generation_failed_def emit_emit
        split: sum.splits)
  then show ?thesis by (intro exI [of _ "[Images_generate p, Image_get img_url]"]) simp
qed

lemma generate_image_log:
  "\<exists>es. log (snd (generate_image w client p s)) = log s @ Images_generate p # es"
  by (simp add: generate_image_def generation_failed_def emit_def Let_def split: sum.splits)

lemma apply_template_overlay_log:
  "\<exists>es. log (snd (apply_template_overlay w base s)) = log s @ es"
  by (simp add: apply_template_overlay_def emit_def split: sum.splits)

lemma generation_logic_not_missing:
  "prompt inp \<noteq> [] \<Longrightarrow> fst (generation_logic w inp s) \<noteq> Prompt_missing"
  by (simp add: generation_logic_def split: prod.splits option.splits sum.splits)

lemma generation_logic_calls:
  assumes "prompt inp \<noteq> []" and "api_key w = Inr (Some k)" and "k \<noteq> []"
  shows "\<exists>es. log (snd (generation_logic w inp s)) = log s @ Images_generate (prompt inp) # es"
proof -
  have client: "get_openai_client w s = (Some k, s)"
    using assms(2,3) by (simp add: get_openai_client_def)
  obtain r s2 where gen: "generate_image w k (prompt inp) s = (r, s2)"
    by (cases "generate_image w k (prompt inp) s")
  obtain es where es: "log s2 = log s @ Images_generate (prompt inp) # es"
    using generate_image_log [of w k "prompt inp" s] gen by auto
  show ?thesis
  proof (cases r)
    case None
    with assms(1) client gen es show ?thesis
      by (simp add: generation_logic_def)
  next
    case (Some ai_image)
    show ?thesis
    proof (cases "compose w (mode inp) ai_image")
      case (Inl e)
      with Some assms(1) client gen es show ?thesis
        by (simp add: generation_logic_def)
    next
      case (Inr base_image)
      obtain final s3 where ov: "apply_template_overlay w base_image s2 = (final, s3)"
        by (cases "apply_template_overlay w base_image s2")
      obtain es' where "log s3 = log s2 @ es'"
        using apply_template_overlay_log [of w base_image s2] ov by auto
      with Inr Some assms(1) client gen es ov show ?thesis
        by (simp add: generation_logic_def emit_def)
    qed
  qed
qed

text \<open>
  C1, as the code has it. With the empty prompt, in either mode, no call to the image
  generator is made during the run; when the button was pressed and the template set-up
  returned, the run ends with the warning that asks for a description, and nothing else.
  A prompt that is not the empty string, a prompt of blanks included, never ends with
  that warning; when the button was pressed, the template set-up returned and the API
  key is there, the generation request for that prompt is made.
\<close>

theorem empty_prompt_rejected:
  "(prompt inp = [] \<longrightarrow>
      \<not> list_ex generator_call (new_events s (snd (main w inp s)))
      \<and> (generate_btn inp \<and> fst (download_template w s) = Inr () \<longrightarrow>
           main w inp s = (Prompt_missing,
             emit [St_warning ''Please enter a design description.'']
               (snd (download_template w s)))))
   \<and> (prompt inp \<noteq> [] \<longrightarrow>
      fst (main w inp s) \<noteq> Prompt_missing
      \<and> (generate_btn inp \<and> fst (download_template w s) = Inr ()
            \<and> api_key w = Inr (Some k) \<and> k \<noteq> [] \<longrightarrow>
           Images_generate (prompt inp) \<in> set (new_events s (snd (main w inp s)))))"
proof -
  obtain es where es: "log (snd (download_template w s)) = log s @ es"
    and quiet: "\<not> list_ex generator_call es"
    using download_template_log [of w s] by blast
  obtain r s' where dt: "download_template w s = (r, s')"
    by (cases "download_template w s")
  from es dt have log': "log s' = log s @ es" by simp
  have "\<not> list_ex generator_call (new_events s (snd (main w inp s)))"
    if "prompt inp = []"
    using that dt log' quiet
    by (cases r)
      (simp_all add: main_def generation_logic_def new_events_def emit_def)
  moreover have "main w inp s = (Prompt_missing,
      emit [St_warning ''Please enter a design description.''] (snd (download_template w s)))"
    if "prompt inp = []" and "generate_btn inp \<and> fst (download_template w s) = Inr ()"
    using that dt by (simp add: main_def generation_logic_def)
  moreover have "fst (main w inp s) \<noteq> Prompt_missing" if "prompt inp \<noteq> []"
    using that dt generation_logic_not_missing [of inp w s']
    by (cases r) (simp_all add: main_def)
  moreover have "Images_generate (prompt inp) \<in> set (new_events s (snd (main w inp s)))"
    if ne: "prompt inp \<noteq> []"
      and run: "generate_btn inp \<and> fst (download_template w s) = Inr ()
        \<and> api_key w = Inr (Some k) \<and> k \<noteq> []"
  proof -
    from run dt have m: "main w inp s = generation_logic w inp s'"
      by (simp add: main_def)
    obtain es' where "log (snd (generation_logic w inp s'))
        = log s' @ Images_generate (prompt inp) # es'"
      using generation_logic_calls [OF ne, of w k s'] run by blast
    then have "new_events s (snd (main w inp s)) = es @ Images_generate (prompt inp) # es'"
      using log' m by (simp add: new_events_append)
    then show ?thesis by simp
  qed
  ultimately show ?thesis by blast
qed

theorem empty_prompt_rejected_witness:
  "prompt \<lparr>prompt = [], mode = Pattern_Mode, generate_btn = True\<rparr> = []
   \<and> generate_btn \<lparr>prompt = [], mode = Pattern_Mode, generate_btn = True\<rparr>
   \<and> fst (download_template studio fresh) = Inr ()
   \<and> main studio \<lparr>prompt = [], mode = Pattern_Mode, generate_btn = True\<rparr> fresh
       = (Prompt_missing,
          \<lparr>template_file = Some (Raw_bytes [137, 80, 78, 71]),
           log = [Template_get TEMPLATE_URL, St_success ''Template downloaded!'',
                  St_warning ''Please enter a design description.'']\<rparr>)
   \<and> prompt \<lparr>prompt = ''  '', mode = Logo_Mode, generate_btn = True\<rparr> \<noteq> []
   \<and> generate_btn \<lparr>prompt = ''  '', mode = Logo_Mode, generate_btn = True\<rparr>
   \<and> fst (download_template offline fresh) = Inr ()
   \<and> api_key offline = Inr (Some ''sk-test'') \<and> ''sk-test'' \<noteq> []
   \<and> fst (main offline \<lparr>prompt = ''  '', mode = Logo_Mode, generate_btn = True\<rparr> fresh)
       \<noteq> Prompt_missing
   \<and> Images_generate ''  ''
       \<in> set (new_events fresh
            (snd (main offline \<lparr>prompt = ''  '', mode = Logo_Mode, generate_btn = True\<rparr>
                   fresh)))"
proof -
  let ?e = "\<lparr>prompt = [], mode = Pattern_Mode, generate_btn = True\<rparr>"
  let ?b = "\<lparr>prompt = ''  '', mode = Logo_Mode, generate_btn = True\<rparr>"
  have d: "download_template studio fresh
      = (Inr (), \<lparr>template_file = Some (Raw_bytes [137, 80, 78, 71]),
           log = [Template_get TEMPLATE_URL, St_success ''Template downloaded!'']\<rparr>)"
    by (simp add: download_template_def studio_def fresh_def emit_def Let_def)
  have first: "main studio ?e fresh
       = (Prompt_missing,
          \<lparr>template_file = Some (Raw_bytes [137, 80, 78, 71]),
           log = [Template_get TEMPLATE_URL, St_success ''Template downloaded!'',
                  St_warning ''Please enter a design description.'']\<rparr>)"
    using empty_prompt_rejected [of ?e fresh studio]
    by (simp add: d emit_def)
  have h3: "fst (download_template offline fresh) = Inr ()"
    by (simp add: download_template_def template_fallback_def offline_def fresh_def Let_def)
  have h4: "api_key offline = Inr (Some ''sk-test'')"
    by (simp add: offline_def)
  have second: "fst (main offline ?b fresh) \<noteq> Prompt_missing
      \<and> Images_generate ''  '' \<in> set (new_events fresh (snd (main offline ?b fresh)))"
    using empty_prompt_rejected [of ?b fresh offline "''sk-test''"] h3 h4
    by simp
  show ?thesis
    using d first h3 h4 second by simp
qed

text \<open>
  The claim of C1 as it was stated fails on a prompt of one blank: the run goes on to
  the client set-up and calls the generator, which here answers with an error.
\<close>

theorem blank_prompt_counterexample:
  "main offline \<lparr>prompt = '' '', mode = Logo_Mode, generate_btn = True\<rparr> fresh
     = (No_image,
        \<lparr>template_file = Some (Png_of placeholder),
         log = [Template_get TEMPLATE_URL, St_error ''Failed to download template: timeout'',
                St_info ''Creating a transparent placeholder template...'',
                Images_generate '' '',
                St_error ''Image generation failed: connection error'']\<rparr>)"
  by (simp add: main_def generation_logic_def download_template_def template_fallback_def
      get_openai_client_def generate_image_def generation_failed_def emit_def offline_def
      fresh_def Let_def)

text \<open>
  C9. When the button was pressed with a prompt that is not empty, the template set-up
  returned and the client was created, a failure of the generator step (the API call, the
  download of the image, or the decoding of its bytes) ends the run with no image: the
  log gains only the generator calls and the error message, no image is shown or offered
  for download, and neither composition nor overlay takes place.
\<close>

theorem generation_failure_halts:
  assumes "generate_btn inp" and "prompt inp \<noteq> []"
    and "fst (download_template w s) = Inr ()"
    and "api_key w = Inr (Some k)" and "k \<noteq> []"
    and "generator_fails w (prompt inp) e"
  shows "\<exists>evs. main w inp s
      = (No_image, emit (evs @ [St_error (''Image generation failed: '' @ str e)])
                     (snd (download_template w s)))
    \<and> list_all generator_call evs
    \<and> \<not> list_ex output_event (new_events s (snd (main w inp s)))"
proof -
  obtain s0 where dt: "download_template w s = (Inr (), s0)"
    using assms(3) by (cases "download_template w s") auto
  obtain es where es: "log s0 = log s @ es" and quiet: "\<not> list_ex output_event es"
    using download_template_log [of w s] dt by auto
  have client: "get_openai_client w s0 = (Some k, s0)"
    using assms(4,5) by (simp add: get_openai_client_def)
  obtain evs where gen: "generate_image w k (prompt inp) s0
      = (None, emit (evs @ [St_error (''Image generation failed: '' @ str e)]) s0)"
    and calls: "list_all generator_call evs"
    using generate_image_fails [OF assms(6), of k s0] by blast
  have run: "main w inp s
      = (No_image, emit (evs @ [St_error (''Image generation failed: '' @ str e)]) s0)"
    using assms(1,2) dt client gen by (simp add: main_def generation_logic_def)
  have "\<not> list_ex output_event evs"
    using calls by (induction evs) (auto elim: generator_call.elims)
  then have "\<not> list_ex output_event (new_events s (snd (main w inp s)))"
    using quiet es by (simp add: run new_events_def emit_def)
  with run calls dt show ?thesis by auto
qed

theorem generation_failure_halts_witness:
  "generate_btn \<lparr>prompt = ''golden dragon logo'', mode = Logo_Mode, generate_btn = True\<rparr>
   \<and> prompt \<lparr>prompt = ''golden dragon logo'', mode = Logo_Mode, generate_btn = True\<rparr> \<noteq> []
   \<and> fst (download_template offline fresh) = Inr ()
   \<and> api_key offline = Inr (Some ''sk-test'') \<and> ''sk-test'' \<noteq> []
   \<and> generator_fails offline ''golden dragon logo'' (Exn ''connection error'')
   \<and> fst (main offline
        \<lparr>prompt = ''golden dragon logo'', mode = Logo_Mode, generate_btn = True\<rparr> fresh)
       = No_image
   \<and> \<not> list_ex output_event (new_events fresh (snd (main offline
        \<lparr>prompt = ''golden dragon logo'', mode = Logo_Mode, generate_btn = True\<rparr> fresh)))"
proof -
  let ?inp = "\<lparr>prompt = ''golden dragon logo'', mode = Logo_Mode, generate_btn = True\<rparr>"
  have h1: "generate_btn ?inp" and h2: "prompt ?inp \<noteq> []"
    by simp_all
  have h3: "fst (download_template offline fresh) = Inr ()"
    by (simp add: download_template_def template_fallback_def offline_def fresh_def Let_def)
  have h4: "api_key offline = Inr (Some ''sk-test'')" and h5: "''sk-test'' \<noteq> []"
    by (simp_all add: offline_def)
  have h6: "generator_fails offline (prompt ?inp) (Exn ''connection error'')"
    by (simp add: generator_fails_def offline_def)
  from generation_failure_halts [OF h1 h2 h3 h4 h5 h6]
  have "fst (main offline ?inp fresh) = No_image
    \<and> \<not> list_ex output_event (new_events fresh (snd (main offline ?inp fresh)))"
    by auto
  then show ?thesis
    using h1 h2 h3 h4 h5 h6 by simp
qed

subsection \<open>The overlay\<close>

lemma composite_px_transparent: "alpha src = 0 \<Longrightarrow> composite_px dst src = dst"
  by (simp add: composite_px_def)

lemma chan_opaque: "v \<le> 255 \<Longrightarrow> SHIFTFORDIV255 (v * 32640 + 16384) div 128 = v"
  unfolding SHIFTFORDIV255_def by arith

lemma composite_px_opaque:
  assumes "alpha src = 255"
  shows "composite_px dst src = src"
proof -
  have alpha_out: "SHIFTFORDIV255 65153 = 255"
    by (simp add: SHIFTFORDIV255_def)
  have ch: "(of_nat (SHIFTFORDIV255 (unat s * 32640 + 16384) div 128) :: u8) = s" for s :: u8
    by (simp add: chan_opaque unat_u8_le)
  show ?thesis
    using assms by (simp add: composite_px_def Let_def ch alpha_out)
qed

lemma pixel_identical_refl: "pixel_identical a a"
  by (simp add: pixel_identical_def)

lemma load_overlay_size: "load_overlay w s = Inr ov \<Longrightarrow> isize ov = (585, 559)"
  by (auto simp: load_overlay_def config_defs dest: resize_size split: sum.splits if_splits)

lemma apply_overlay_fails:
  "overlay_try w s base = Inl e \<Longrightarrow>
     apply_template_overlay w base s
       = (base, emit [St_warning (''Could not apply overlay: '' @ str e)] s)"
  by (simp add: apply_template_overlay_def)

lemma composite_transparent:
  assumes "isize base = isize ov" and "uniform_alpha ov 0"
  shows "\<exists>final. alpha_composite base ov = Inr final \<and> pixel_identical final base"
proof -
  have "getpixel \<lparr>isize = isize base,
          pixels = (\<lambda>x y. composite_px (pixels base x y) (pixels ov x y))\<rparr> x y
      = getpixel base x y" for x y
    using assms by (simp add: getpixel_def uniform_alpha_def composite_px_transparent)
  then show ?thesis
    using assms(1) by (simp add: alpha_composite_def pixel_identical_def)
qed

lemma composite_opaque:
  assumes "isize base = isize ov" and "uniform_alpha ov 255"
  shows "\<exists>final. alpha_composite base ov = Inr final \<and> pixel_identical final ov"
proof -
  have "getpixel \<lparr>isize = isize base,
          pixels = (\<lambda>x y. composite_px (pixels base x y) (pixels ov x y))\<rparr> x y
      = getpixel ov x y" for x y
    using assms by (simp add: getpixel_def uniform_alpha_def composite_px_opaque)
  then show ?thesis
    using assms(1) by (simp add: alpha_composite_def pixel_identical_def)
qed

text \<open>
  C6. Let the base canvas be 585 by 559, and let the overlay that reaches the composite
  be the template as opened (when the file holds a 585 by 559 image the overlay is that
  image itself, otherwise it is its resize to 585 by 559). Then
  \<open>apply_template_overlay\<close> returns an image without a warning; when every pixel of the
  overlay has alpha 0 it is pixel-identical to the base canvas, and when every pixel of
  the overlay has alpha 255 it is pixel-identical to the overlay.
\<close>

theorem overlay_transparent_opaque:
  assumes "isize base = (585, 559)" and "load_overlay w s = Inr ov"
  shows "\<exists>final. apply_template_overlay w base s = (final, s)
    \<and> (uniform_alpha ov 0 \<longrightarrow> pixel_identical final base)
    \<and> (uniform_alpha ov 255 \<longrightarrow> pixel_identical final ov)
    \<and> (open_template w s = Inr tpl \<longrightarrow>
         (if isize tpl = (585, 559) then ov = tpl
          else resize (resample w) tpl (585, 559) = Inr ov))"
proof -
  have sz: "isize base = isize ov"
    using assms by (simp add: load_overlay_size)
  then obtain final where comp: "alpha_composite base ov = Inr final"
    by (simp add: alpha_composite_def)
  have res: "apply_template_overlay w base s = (final, s)"
    using assms(2) comp by (simp add: apply_template_overlay_def overlay_try_def)
  have "uniform_alpha ov 0 \<longrightarrow> pixel_identical final base"
    using composite_transparent [OF sz] comp by auto
  moreover have "uniform_alpha ov 255 \<longrightarrow> pixel_identical final ov"
    using composite_opaque [OF sz] comp by auto
  moreover have "open_template w s = Inr tpl \<longrightarrow>
         (if isize tpl = (585, 559) then ov = tpl
          else resize (resample w) tpl (585, 559) = Inr ov)"
    using assms(2) by (auto simp: load_overlay_def config_defs)
  ultimately show ?thesis
    using res by blast
qed

theorem overlay_transparent_opaque_witness:
  "isize red_canvas = (585, 559)
   \<and> open_template studio (cached placeholder) = Inr placeholder
   \<and> load_overlay studio (cached placeholder) = Inr placeholder
   \<and> uniform_alpha placeholder 0
   \<and> (\<exists>final. apply_template_overlay studio red_canvas (cached placeholder)
                  = (final, cached placeholder)
         \<and> pixel_identical final red_canvas)
   \<and> open_template studio (cached opaque_small) = Inr opaque_small
   \<and> isize opaque_small \<noteq> (585, 559)
   \<and> resize (resample studio) opaque_small (585, 559) = Inr opaque_fitted
   \<and> load_overlay studio (cached opaque_small) = Inr opaque_fitted
   \<and> uniform_alpha opaque_fitted 255
   \<and> (\<exists>final. apply_template_overlay studio red_canvas (cached opaque_small)
                  = (final, cached opaque_small)
         \<and> pixel_identical final opaque_fitted)"
proof -
  have b: "isize red_canvas = (585, 559)"
    by (simp add: red_canvas_def Image_new_def)
  have o1: "open_template studio (cached placeholder) = Inr placeholder"
    by (simp add: open_template_def cached_def)
  have l1: "load_overlay studio (cached placeholder) = Inr placeholder"
    by (simp add: load_overlay_def open_template_def cached_def placeholder_def Image_new_def)
  have u1: "uniform_alpha placeholder 0"
    by (simp add: uniform_alpha_def placeholder_def Image_new_def transparent_black_def)
  have o2: "open_template studio (cached opaque_small) = Inr opaque_small
      \<and> isize opaque_small \<noteq> (585, 559)"
    by (simp add: open_template_def cached_def opaque_small_def Image_new_def)
  have l2: "load_overlay studio (cached opaque_small) = Inr opaque_fitted"
    by (simp add: load_overlay_def open_template_def cached_def opaque_small_def
        opaque_fitted_def Image_new_def resize_def studio_def nearest_def config_defs)
  have u2: "uniform_alpha opaque_fitted 255"
    by (simp add: uniform_alpha_def opaque_fitted_def Image_new_def)
  have r2: "resize (resample studio) opaque_small (585, 559) = Inr opaque_fitted"
    using overlay_transparent_opaque [OF b l2, of opaque_small] o2 by auto
  show ?thesis
    using b o1 l1 u1 o2 r2 l2 u2 overlay_transparent_opaque [OF b l1, of placeholder]
      overlay_transparent_opaque [OF b l2, of opaque_small]
    by blast
qed

text \<open>
  C7. Whatever fails inside the \<open>try\<close> of \<open>apply_template_overlay\<close> (opening the template
  file, resizing the overlay, or the composite itself), the function returns the base
  image it was given and adds one warning to the log. It never raises: once the layout
  step has produced a base image, the run ends with a shirt, and that shirt is the base
  image when the overlay failed.
\<close>

theorem overlay_failure_degrades:
  "(open_template w s = Inl e \<longrightarrow>
      apply_template_overlay w base s
        = (base, emit [St_warning (''Could not apply overlay: '' @ str e)] s))
   \<and> (open_template w s = Inr ov \<and> isize ov \<noteq> (585, 559)
        \<and> resample w ov (585, 559) = Inl e \<longrightarrow>
      apply_template_overlay w base s
        = (base, emit [St_warning (''Could not apply overlay: '' @ str e)] s))
   \<and> (load_overlay w s = Inr ov \<and> alpha_composite base ov = Inl e \<longrightarrow>
      apply_template_overlay w base s
        = (base, emit [St_warning (''Could not apply overlay: '' @ str e)] s))
   \<and> (prompt inp \<noteq> [] \<and> get_openai_client w s = (Some client, s1)
        \<and> generate_image w client (prompt inp) s1 = (Some ai_image, s2)
        \<and> compose w (mode inp) ai_image = Inr base \<longrightarrow>
      (\<exists>final s3. generation_logic w inp s = (Shirt final, s3)
         \<and> (overlay_try w s2 base = Inl e \<longrightarrow> final = base)))"
proof -
  have "overlay_try w s base = Inl e" if "open_template w s = Inl e"
    using that by (simp add: overlay_try_def load_overlay_def)
  moreover have "overlay_try w s base = Inl e"
    if "open_template w s = Inr ov \<and> isize ov \<noteq> (585, 559) \<and> resample w ov (585, 559) = Inl e"
    using that by (simp add: overlay_try_def load_overlay_def resize_def config_defs)
  moreover have "overlay_try w s base = Inl e"
    if "load_overlay w s = Inr ov \<and> alpha_composite base ov = Inl e"
    using that by (simp add: overlay_try_def)
  moreover have "\<exists>final s3. generation_logic w inp s = (Shirt final, s3)
         \<and> (overlay_try w s2 base = Inl e \<longrightarrow> final = base)"
    if "prompt inp \<noteq> [] \<and> get_openai_client w s = (Some client, s1)
        \<and> generate_image w client (prompt inp) s1 = (Some ai_image, s2)
        \<and> compose w (mode inp) ai_image = Inr base"
    using that
    by (cases "overlay_try w s2 base")
      (simp_all add: generation_logic_def apply_template_overlay_def)
  ultimately show ?thesis
    by (simp add: apply_overlay_fails)
qed

theorem overlay_failure_degrades_witness:
  "open_template studio corrupt_cache = Inl (Exn ''cannot identify image file'')
   \<and> apply_template_overlay studio red_canvas corrupt_cache
       = (red_canvas,
          \<lparr>template_file = Some (Raw_bytes []),
           log = [St_warning ''Could not apply overlay: cannot identify image file'']\<rparr>)
   \<and> open_template studio (cached empty_image) = Inr empty_image
   \<and> isize empty_image \<noteq> (585, 559)
   \<and> resample studio empty_image (585, 559) = Inl (Exn ''empty image'')
   \<and> apply_template_overlay studio red_canvas (cached empty_image)
       = (red_canvas,
          \<lparr>template_file = Some (Png_of empty_image),
           log = [St_warning ''Could not apply overlay: empty image'']\<rparr>)
   \<and> load_overlay studio (cached placeholder) = Inr placeholder
   \<and> alpha_composite opaque_small placeholder = Inl (Exn ''images do not match'')
   \<and> apply_template_overlay studio opaque_small (cached placeholder)
       = (opaque_small,
          \<lparr>template_file = Some (Png_of placeholder),
           log = [St_warning ''Could not apply overlay: images do not match'']\<rparr>)
   \<and> (\<exists>base s2.
         prompt \<lparr>prompt = ''neon'', mode = Pattern_Mode, generate_btn = True\<rparr> \<noteq> []
       \<and> get_openai_client studio corrupt_cache = (Some ''sk-test'', corrupt_cache)
       \<and> generate_image studio ''sk-test'' ''neon'' corrupt_cache = (Some wide_asset, s2)
       \<and> compose studio Pattern_Mode wide_asset = Inr base
       \<and> overlay_try studio s2 base = Inl (Exn ''cannot identify image file'')
       \<and> fst (generation_logic studio
              \<lparr>prompt = ''neon'', mode = Pattern_Mode, generate_btn = True\<rparr> corrupt_cache)
           = Shirt base)"
proof -
  let ?inp = "\<lparr>prompt = ''neon'', mode = Pattern_Mode, generate_btn = True\<rparr>"
  let ?e = "Exn ''cannot identify image file''"
  have o1: "open_template studio corrupt_cache = Inl ?e"
    by (simp add: open_template_def corrupt_cache_def studio_def)
  have o2: "open_template studio (cached empty_image) = Inr empty_image
      \<and> isize empty_image \<noteq> (585, 559)
      \<and> resample studio empty_image (585, 559) = Inl (Exn ''empty image'')"
    by (simp add: open_template_def cached_def empty_image_def Image_new_def studio_def
        nearest_def)
  have o3: "load_overlay studio (cached placeholder) = Inr placeholder
      \<and> alpha_composite opaque_small placeholder = Inl (Exn ''images do not match'')"
    by (simp add: load_overlay_def open_template_def cached_def placeholder_def Image_new_def
        alpha_composite_def opaque_small_def config_defs)
  have w1: "apply_template_overlay studio red_canvas corrupt_cache
       = (red_canvas,
          \<lparr>template_file = Some (Raw_bytes []),
           log = [St_warning ''Could not apply overlay: cannot identify image file'']\<rparr>)"
    using overlay_failure_degrades [of studio corrupt_cache ?e red_canvas] o1
    by (simp add: emit_def corrupt_cache_def)
  have w2: "apply_template_overlay studio red_canvas (cached empty_image)
       = (red_canvas,
          \<lparr>template_file = Some (Png_of empty_image),
           log = [St_warning ''Could not apply overlay: empty image'']\<rparr>)"
    using overlay_failure_degrades
      [of studio "cached empty_image" "Exn ''empty image''" red_canvas empty_image] o2
    by (simp add: emit_def cached_def)
  have w3: "apply_template_overlay studio opaque_small (cached placeholder)
       = (opaque_small,
          \<lparr>template_file = Some (Png_of placeholder),
           log = [St_warning ''Could not apply overlay: images do not match'']\<rparr>)"
    using overlay_failure_degrades
      [of studio "cached placeholder" "Exn ''images do not match''" opaque_small placeholder] o3
    by (simp add: emit_def cached_def)
  define s2 where "s2 = emit [Images_generate ''neon'', Image_get ''https://images.example/1.png'']
      corrupt_cache"
  have c: "get_openai_client studio corrupt_cache = (Some ''sk-test'', corrupt_cache)"
    by (simp add: get_openai_client_def studio_def)
  have g: "generate_image studio ''sk-test'' ''neon'' corrupt_cache = (Some wide_asset, s2)"
    by (simp add: generate_image_def studio_def s2_def emit_def Let_def)
  obtain base where cmp: "compose studio Pattern_Mode wide_asset = Inr base"
    using pattern_returns [OF wide_tile] by (auto simp: compose_def studio_def)
  have ot: "overlay_try studio s2 base = Inl ?e"
    by (simp add: overlay_try_def load_overlay_def open_template_def s2_def emit_def
        corrupt_cache_def studio_def)
  have p: "prompt ?inp \<noteq> []" by simp
  have "fst (generation_logic studio ?inp corrupt_cache) = Shirt base"
    using overlay_failure_degrades
      [where w = studio and s = corrupt_cache and e = ?e and base = base and ov = placeholder
        and inp = ?inp and client = "''sk-test''" and ?s1.0 = corrupt_cache
        and ai_image = wide_asset and ?s2.0 = s2]
      p c g cmp ot
    by auto
  with p c g cmp ot have "\<exists>base s2. prompt ?inp \<noteq> []
       \<and> get_openai_client studio corrupt_cache = (Some ''sk-test'', corrupt_cache)
       \<and> generate_image studio ''sk-test'' ''neon'' corrupt_cache = (Some wide_asset, s2)
       \<and> compose studio Pattern_Mode wide_asset = Inr base
       \<and> overlay_try studio s2 base = Inl ?e
       \<and> fst (generation_logic studio ?inp corrupt_cache) = Shirt base"
    by blast
  with o1 o2 o3 w1 w2 w3 show ?thesis
    by simp
qed

text \<open>
  C10. The placeholder that \<open>download_template\<close> saves when the fetch or the write of the
  template failed is 585 by 559 and transparent everywhere. While the template file holds
  it, the overlay opens to the placeholder itself whatever the resampler is, so it is
  never resized, and \<open>apply_template_overlay\<close> returns an image pixel-identical to the base
  image it was given.
\<close>

theorem placeholder_overlay_identity:
  "isize placeholder = (585, 559) \<and> uniform_alpha placeholder 0
   \<and> (template_file s0 = None \<and> (template_response w = Inl e \<or> write_error w = Some e)
        \<and> save_error w = None \<longrightarrow>
      template_file (snd (download_template w s0)) = Some (Png_of placeholder))
   \<and> (template_file s = Some (Png_of placeholder) \<longrightarrow>
      load_overlay w s = Inr placeholder
      \<and> pixel_identical (fst (apply_template_overlay w base s)) base)"
proof -
  have sz: "isize placeholder = (585, 559)"
    by (simp add: placeholder_def Image_new_def config_defs)
  have tr: "uniform_alpha placeholder 0"
    by (simp add: uniform_alpha_def placeholder_def Image_new_def transparent_black_def)
  have saved: "template_file (snd (download_template w s0)) = Some (Png_of placeholder)"
    if "template_file s0 = None \<and> (template_response w = Inl e \<or> write_error w = Some e)
        \<and> save_error w = None"
    using that
    by (auto simp: download_template_def template_fallback_def emit_def Let_def
        split: sum.splits option.splits)
  have used: "load_overlay w s = Inr placeholder
      \<and> pixel_identical (fst (apply_template_overlay w base s)) base"
    if cache: "template_file s = Some (Png_of placeholder)"
  proof -
    have lo: "load_overlay w s = Inr placeholder"
      using cache sz by (simp add: load_overlay_def open_template_def config_defs)
    have "pixel_identical (fst (apply_template_overlay w base s)) base"
    proof (cases "isize base = isize placeholder")
      case True
      then obtain final where "alpha_composite base placeholder = Inr final"
        and "pixel_identical final base"
        using composite_transparent [OF _ tr] by blast
      then show ?thesis
        using lo by (simp add: apply_template_overlay_def overlay_try_def)
    next
      case False
      then show ?thesis
        using lo
        by (simp add: apply_template_overlay_def overlay_try_def alpha_composite_def
            pixel_identical_refl)
    qed
    with lo show ?thesis by simp
  qed
  from sz tr saved used show ?thesis by blast
qed

theorem placeholder_overlay_identity_witness:
  "template_file fresh = None \<and> template_response offline = Inl (Exn ''timeout'')
   \<and> save_error offline = None
   \<and> template_file (snd (download_template offline fresh)) = Some (Png_of placeholder)
   \<and> load_overlay studio (snd (download_template offline fresh)) = Inr placeholder
   \<and> pixel_identical
        (fst (apply_template_overlay studio red_canvas (snd (download_template offline fresh))))
        red_canvas"
proof -
  have h: "template_file fresh = None \<and> template_response offline = Inl (Exn ''timeout'')
      \<and> save_error offline = None"
    by (simp add: fresh_def offline_def)
  have f: "template_file (snd (download_template offline fresh)) = Some (Png_of placeholder)"
    using placeholder_overlay_identity
      [where ?s0.0 = fresh and w = offline and e = "Exn ''timeout''" and s = fresh
        and base = red_canvas] h
    by blast
  show ?thesis
    using h f placeholder_overlay_identity
      [where ?s0.0 = fresh and w = studio and e = "Exn ''timeout''"
        and s = "snd (download_template offline fresh)" and base = red_canvas]
    by blast
qed

end
